theory Spec2Isabelle
  imports Complex_Main "HOL-Library.AList"
begin

section \<open>Text as sequences of code points\<close>

text \<open>
  A Python \<^verbatim>\<open>str\<close> is a sequence of Unicode code points; \<^verbatim>\<open>len\<close>, indexing and the
  \<^verbatim>\<open>re\<close> module all work on code points. A character is therefore modelled by its code
  point and a string by a list of them. ASCII literals are written through \<open>ascii\<close>; the
  Cyrillic letters of the source get names (transliterated).
\<close>

type_synonym uchar = nat
type_synonym ustring = "uchar list"

definition ascii :: "string \<Rightarrow> ustring" where
  "ascii s = map of_char s"

abbreviation ru_a :: uchar where "ru_a \<equiv> 1072"
abbreviation ru_b :: uchar where "ru_b \<equiv> 1073"
abbreviation ru_v :: uchar where "ru_v \<equiv> 1074"
abbreviation ru_g :: uchar where "ru_g \<equiv> 1075"
abbreviation ru_d :: uchar where "ru_d \<equiv> 1076"
abbreviation ru_e :: uchar where "ru_e \<equiv> 1077"
abbreviation ru_zh :: uchar where "ru_zh \<equiv> 1078"
abbreviation ru_z :: uchar where "ru_z \<equiv> 1079"
abbreviation ru_i :: uchar where "ru_i \<equiv> 1080"
abbreviation ru_j :: uchar where "ru_j \<equiv> 1081"
abbreviation ru_k :: uchar where "ru_k \<equiv> 1082"
abbreviation ru_l :: uchar where "ru_l \<equiv> 1083"
abbreviation ru_m :: uchar where "ru_m \<equiv> 1084"
abbreviation ru_n :: uchar where "ru_n \<equiv> 1085"
abbreviation ru_o :: uchar where "ru_o \<equiv> 1086"
abbreviation ru_p :: uchar where "ru_p \<equiv> 1087"
abbreviation ru_r :: uchar where "ru_r \<equiv> 1088"
abbreviation ru_s :: uchar where "ru_s \<equiv> 1089"
abbreviation ru_t :: uchar where "ru_t \<equiv> 1090"
abbreviation ru_u :: uchar where "ru_u \<equiv> 1091"
abbreviation ru_f :: uchar where "ru_f \<equiv> 1092"
abbreviation ru_h :: uchar where "ru_h \<equiv> 1093"
abbreviation ru_c :: uchar where "ru_c \<equiv> 1094"
abbreviation ru_ch :: uchar where "ru_ch \<equiv> 1095"
abbreviation ru_sh :: uchar where "ru_sh \<equiv> 1096"
abbreviation ru_shch :: uchar where "ru_shch \<equiv> 1097"
abbreviation ru_hard :: uchar where "ru_hard \<equiv> 1098"
abbreviation ru_y :: uchar where "ru_y \<equiv> 1099"
abbreviation ru_soft :: uchar where "ru_soft \<equiv> 1100"
abbreviation ru_eh :: uchar where "ru_eh \<equiv> 1101"
abbreviation ru_yu :: uchar where "ru_yu \<equiv> 1102"
abbreviation ru_ya :: uchar where "ru_ya \<equiv> 1103"
abbreviation ru_yo :: uchar where "ru_yo \<equiv> 1105"
abbreviation RU_A :: uchar where "RU_A \<equiv> 1040"
abbreviation RU_V :: uchar where "RU_V \<equiv> 1042"
abbreviation RU_G :: uchar where "RU_G \<equiv> 1043"
abbreviation RU_K :: uchar where "RU_K \<equiv> 1050"
abbreviation RU_M :: uchar where "RU_M \<equiv> 1052"
abbreviation RU_P :: uchar where "RU_P \<equiv> 1055"
abbreviation RU_S :: uchar where "RU_S \<equiv> 1057"
abbreviation sp :: uchar where "sp \<equiv> 32"
abbreviation dot :: uchar where "dot \<equiv> 46"

subsection \<open>The interpreter: Unicode tables and the integer digit limit\<close>

text \<open>
  The Python runtime is not part of the repository. What the code consults of it is a
  parameter of the model:
  \<^item> \<open>isalnum\<close>, \<open>isalpha\<close>, \<open>isdecimal\<close>: \<^verbatim>\<open>str.isalnum\<close>, \<^verbatim>\<open>str.isalpha\<close>,
    \<^verbatim>\<open>str.isdecimal\<close> on one character (the regex class \<^verbatim>\<open>\d\<close> is \<open>isdecimal\<close>, and
    \<^verbatim>\<open>\w\<close> is \<open>isalnum\<close> or the underscore);
  \<^item> \<open>digit_value\<close>: the value \<^verbatim>\<open>int\<close> gives a decimal digit;
  \<^item> \<open>ic_match p c\<close>: the literal pattern character \<open>p\<close> matches the text character \<open>c\<close>
    under \<^verbatim>\<open>re.IGNORECASE\<close>;
  \<^item> \<open>str_lower\<close>: \<^verbatim>\<open>str.lower\<close>;
  \<^item> \<open>int_max_str_digits\<close>: the interpreter's limit on the number of digits \<^verbatim>\<open>int\<close>
    converts from a string (\<open>None\<close> where there is no limit; 4300 by default since
    Python 3.11, never configured below 640).
  Whitespace (\<^verbatim>\<open>str.isspace\<close>, \<^verbatim>\<open>str.strip\<close>, \<^verbatim>\<open>str.split\<close>, the regex class \<^verbatim>\<open>\s\<close>) is a
  short fixed set and is written out.
\<close>

record runtime =
  isalnum :: "uchar \<Rightarrow> bool"
  isalpha :: "uchar \<Rightarrow> bool"
  isdecimal :: "uchar \<Rightarrow> bool"
  digit_value :: "uchar \<Rightarrow> nat"
  ic_match :: "uchar \<Rightarrow> uchar \<Rightarrow> bool"
  str_lower :: "ustring \<Rightarrow> ustring"
  int_max_str_digits :: "nat option"

definition isspace :: "uchar \<Rightarrow> bool" where
  "isspace c =
     ((9 \<le> c \<and> c \<le> 13) \<or> (28 \<le> c \<and> c \<le> 32) \<or> c = 133 \<or> c = 160 \<or> c = 5760 \<or>
      (8192 \<le> c \<and> c \<le> 8202) \<or> c = 8232 \<or> c = 8233 \<or> c = 8239 \<or> c = 8287 \<or>
      c = 12288)"

definition is_word :: "runtime \<Rightarrow> uchar \<Rightarrow> bool" where
  "is_word R c = (isalnum R c \<or> c = 95)"

text \<open>
  What every version of the tables says about Basic Latin and the basic Russian letters
  (U+0401, U+0410 to U+044F, U+0451), and the relations between the classes. The theorems
  below assume nothing else about the tables.
\<close>

definition ascii_digit :: "uchar \<Rightarrow> bool" where
  "ascii_digit c = (48 \<le> c \<and> c \<le> 57)"

definition ascii_letter :: "uchar \<Rightarrow> bool" where
  "ascii_letter c = ((65 \<le> c \<and> c \<le> 90) \<or> (97 \<le> c \<and> c \<le> 122))"

definition ru_lower :: "uchar \<Rightarrow> bool" where
  "ru_lower c = ((1072 \<le> c \<and> c \<le> 1103) \<or> c = 1105)"

definition ru_letter :: "uchar \<Rightarrow> bool" where
  "ru_letter c = (c = 1025 \<or> (1040 \<le> c \<and> c \<le> 1103) \<or> c = 1105)"

definition basic :: "uchar \<Rightarrow> bool" where
  "basic c = (c < 128 \<or> ru_letter c)"

definition fold_basic :: "uchar \<Rightarrow> uchar" where
  "fold_basic c =
     (if (65 \<le> c \<and> c \<le> 90) \<or> (1040 \<le> c \<and> c \<le> 1071) then c + 32
      else if c = 1025 then 1105 else c)"

definition runtime_wf :: "runtime \<Rightarrow> bool" where
  "runtime_wf R =
     ((\<forall>c. basic c \<longrightarrow> isalnum R c = (ascii_digit c \<or> ascii_letter c \<or> ru_letter c)) \<and>
      (\<forall>c. basic c \<longrightarrow> isalpha R c = (ascii_letter c \<or> ru_letter c)) \<and>
      (\<forall>c. basic c \<longrightarrow> isdecimal R c = ascii_digit c) \<and>
      (\<forall>c. ascii_digit c \<longrightarrow> digit_value R c = c - 48) \<and>
      (\<forall>p c. basic p \<longrightarrow> basic c \<longrightarrow> ic_match R p c = (fold_basic p = fold_basic c)) \<and>
      (\<forall>c. isdecimal R c \<longrightarrow> isalnum R c) \<and>
      (\<forall>c. isalpha R c \<longrightarrow> isalnum R c) \<and>
      (\<forall>c. isspace c \<longrightarrow> \<not> isalnum R c) \<and>
      (\<forall>p c. ic_match R p c \<longrightarrow> isspace c \<longrightarrow> p = c) \<and>
      (\<forall>w. list_all ru_lower (str_lower R w) \<longrightarrow>
             list_all ru_letter w \<and> str_lower R w = map fold_basic w) \<and>
      (\<forall>w. list_all basic w \<longrightarrow> str_lower R w = map fold_basic w) \<and>
      (\<forall>l. int_max_str_digits R = Some l \<longrightarrow> 640 \<le> l))"

text \<open>The tables cut down to those two blocks, for evaluating the model on examples.\<close>

definition basic_runtime :: runtime where
  "basic_runtime =
     \<lparr> isalnum = (\<lambda>c. ascii_digit c \<or> ascii_letter c \<or> ru_letter c),
       isalpha = (\<lambda>c. ascii_letter c \<or> ru_letter c),
       isdecimal = ascii_digit,
       digit_value = (\<lambda>c. c - 48),
       ic_match = (\<lambda>p c. fold_basic p = fold_basic c),
       str_lower = map fold_basic,
       int_max_str_digits = Some 4300 \<rparr>"

section \<open>Language detection\<close>

datatype language = Russian | English

text \<open>
  \<^verbatim>\<open>re.compile(r'[...]', re.IGNORECASE)\<close> for a class of cased letters: a character
  matches when it matches one of the letters of the class case-insensitively.
  \<open>cyrillic_pattern\<close> lists the class \<^verbatim>\<open>[\<close>U+0430\<^verbatim>\<open>-\<close>U+044F U+0451\<^verbatim>\<open>]\<close>, \<open>latin_pattern\<close> the
  class \<^verbatim>\<open>[a-z]\<close>; \<open>findall_count\<close> is \<^verbatim>\<open>len(pattern.findall(text))\<close> for such a
  one-character pattern.
\<close>

definition cyrillic_pattern :: "uchar list" where
  "cyrillic_pattern = [1072..<1104] @ [1105]"

definition latin_pattern :: "uchar list" where
  "latin_pattern = [97..<123]"

definition class_ic :: "runtime \<Rightarrow> uchar list \<Rightarrow> uchar \<Rightarrow> bool" where
  "class_ic R ps c = list_ex (\<lambda>p. ic_match R p c) ps"

definition findall_count :: "runtime \<Rightarrow> uchar list \<Rightarrow> ustring \<Rightarrow> nat" where
  "findall_count R ps text = length (filter (class_ic R ps) text)"

definition detect_language :: "runtime \<Rightarrow> ustring \<Rightarrow> language" where
  "detect_language R text =
     (let cyrillic_count = findall_count R cyrillic_pattern text;
          latin_count = findall_count R latin_pattern text
      in if cyrillic_count > latin_count then Russian
         else if latin_count > cyrillic_count then English
         else if cyrillic_count > 0 then Russian
         else Russian)"

definition language_name :: "language \<Rightarrow> ustring" where
  "language_name l = (case l of Russian \<Rightarrow> ascii ''russian'' | English \<Rightarrow> ascii ''english'')"

section \<open>Regular-expression substitution\<close>

text \<open>
  \<^verbatim>\<open>re.sub(pattern, repl, text)\<close> scans the text from the left. At each position the
  pattern is tried; on a match the replacement of the matched text is emitted and the scan
  goes on behind the match, otherwise the character is copied and the scan moves one
  character on. A pattern is modelled by its matcher: given the character before the
  position (\<open>None\<close> at the start of the text; look-behinds, \<^verbatim>\<open>^\<close> and \<^verbatim>\<open>\b\<close> read it) and
  the text from the position on, the length of the match there. The matching always
  reads the original text, so the character before a position behind a match is the last
  matched character. None of the patterns of this program matches the empty string.
  The counter of \<open>re_sub_scan\<close> is the number of characters of the current match that are
  still to be skipped.
\<close>

type_synonym matcher = "uchar option \<Rightarrow> ustring \<Rightarrow> nat option"

fun re_sub_scan :: "matcher \<Rightarrow> (ustring \<Rightarrow> ustring) \<Rightarrow> nat \<Rightarrow> uchar option \<Rightarrow> ustring \<Rightarrow> ustring" where
  "re_sub_scan m repl k prev [] = []"
| "re_sub_scan m repl (Suc k) prev (c # cs) = re_sub_scan m repl k (Some c) cs"
| "re_sub_scan m repl 0 prev (c # cs) =
     (case m prev (c # cs) of
        None \<Rightarrow> c # re_sub_scan m repl 0 (Some c) cs
      | Some n \<Rightarrow>
          if n = 0 then c # re_sub_scan m repl 0 (Some c) cs
          else repl (take n (c # cs)) @ re_sub_scan m repl (n - 1) (Some c) cs)"

definition re_sub :: "matcher \<Rightarrow> (ustring \<Rightarrow> ustring) \<Rightarrow> ustring \<Rightarrow> ustring" where
  "re_sub m repl text = re_sub_scan m repl 0 None text"

definition next_char :: "ustring \<Rightarrow> uchar option" where
  "next_char s = (case s of [] \<Rightarrow> None | c # _ \<Rightarrow> Some c)"

definition word_at :: "runtime \<Rightarrow> uchar option \<Rightarrow> bool" where
  "word_at R x = (case x of None \<Rightarrow> False | Some c \<Rightarrow> is_word R c)"

text \<open>\<^verbatim>\<open>\b\<close> between two neighbouring characters (or an end of the text).\<close>

definition word_boundary :: "runtime \<Rightarrow> uchar option \<Rightarrow> uchar option \<Rightarrow> bool" where
  "word_boundary R a b = (word_at R a \<noteq> word_at R b)"

section \<open>Russian numerals\<close>

datatype exn = KeyError | ValueError

text \<open>
  \<open>convert_russian_number\<close> is called with the matched text and, recursively, with
  integers: its argument is a string or an integer.
\<close>

datatype pyval = PStr ustring | PInt nat

function str_nat :: "nat \<Rightarrow> ustring" where
  "str_nat n = (if n < 10 then [48 + n] else str_nat (n div 10) @ [48 + n mod 10])"
  by pat_completeness auto
termination
  by (relation "measure (\<lambda>n. n)") auto

declare str_nat.simps [simp del]

definition py_format :: "pyval \<Rightarrow> ustring" where
  "py_format v = (case v of PStr s \<Rightarrow> s | PInt n \<Rightarrow> str_nat n)"

text \<open>
  \<^verbatim>\<open>int(x)\<close>. The strings that reach it are matches of \<^verbatim>\<open>\d+\<close>: for a non-empty string of
  decimal digits within the digit limit it is the decimal value, and it raises
  \<^verbatim>\<open>ValueError\<close> beyond the limit. (Signs, blanks and underscores, which \<^verbatim>\<open>int\<close> also
  accepts, do not occur in such a match and are not modelled.)
\<close>

definition py_int :: "runtime \<Rightarrow> pyval \<Rightarrow> exn + nat" where
  "py_int R v =
     (case v of
        PInt n \<Rightarrow> Inr n
      | PStr s \<Rightarrow>
          if s = [] \<or> \<not> list_all (isdecimal R) s then Inl ValueError
          else if (case int_max_str_digits R of None \<Rightarrow> False | Some l \<Rightarrow> l < length s)
          then Inl ValueError
          else Inr (foldl (\<lambda>a c. 10 * a + digit_value R c) 0 s))"

definition russian_units :: "(nat \<times> ustring) list" where
  "russian_units =
     [(1, [ru_o, ru_d, ru_i, ru_n]),
      (2, [ru_d, ru_v, ru_a]),
      (3, [ru_t, ru_r, ru_i]),
      (4, [ru_ch, ru_e, ru_t, ru_y, ru_r, ru_e]),
      (5, [ru_p, ru_ya, ru_t, ru_soft]),
      (6, [ru_sh, ru_e, ru_s, ru_t, ru_soft]),
      (7, [ru_s, ru_e, ru_m, ru_soft]),
      (8, [ru_v, ru_o, ru_s, ru_e, ru_m, ru_soft]),
      (9, [ru_d, ru_e, ru_v, ru_ya, ru_t, ru_soft]),
      (10, [ru_d, ru_e, ru_s, ru_ya, ru_t, ru_soft]),
      (11, [ru_o, ru_d, ru_i, ru_n, ru_n, ru_a, ru_d, ru_c, ru_a, ru_t, ru_soft]),
      (12, [ru_d, ru_v, ru_e, ru_n, ru_a, ru_d, ru_c, ru_a, ru_t, ru_soft]),
      (13, [ru_t, ru_r, ru_i, ru_n, ru_a, ru_d, ru_c, ru_a, ru_t, ru_soft]),
      (14, [ru_ch, ru_e, ru_t, ru_y, ru_r, ru_n, ru_a, ru_d, ru_c, ru_a, ru_t, ru_soft]),
      (15, [ru_p, ru_ya, ru_t, ru_n, ru_a, ru_d, ru_c, ru_a, ru_t, ru_soft]),
      (16, [ru_sh, ru_e, ru_s, ru_t, ru_n, ru_a, ru_d, ru_c, ru_a, ru_t, ru_soft]),
      (17, [ru_s, ru_e, ru_m, ru_n, ru_a, ru_d, ru_c, ru_a, ru_t, ru_soft]),
      (18, [ru_v, ru_o, ru_s, ru_e, ru_m, ru_n, ru_a, ru_d, ru_c, ru_a, ru_t, ru_soft]),
      (19, [ru_d, ru_e, ru_v, ru_ya, ru_t, ru_n, ru_a, ru_d, ru_c, ru_a, ru_t, ru_soft])]"

definition russian_tens :: "(nat \<times> ustring) list" where
  "russian_tens =
     [(2, [ru_d, ru_v, ru_a, ru_d, ru_c, ru_a, ru_t, ru_soft]),
      (3, [ru_t, ru_r, ru_i, ru_d, ru_c, ru_a, ru_t, ru_soft]),
      (4, [ru_s, ru_o, ru_r, ru_o, ru_k]),
      (5, [ru_p, ru_ya, ru_t, ru_soft, ru_d, ru_e, ru_s, ru_ya, ru_t]),
      (6, [ru_sh, ru_e, ru_s, ru_t, ru_soft, ru_d, ru_e, ru_s, ru_ya, ru_t]),
      (7, [ru_s, ru_e, ru_m, ru_soft, ru_d, ru_e, ru_s, ru_ya, ru_t]),
      (8, [ru_v, ru_o, ru_s, ru_e, ru_m, ru_soft, ru_d, ru_e, ru_s, ru_ya, ru_t]),
      (9, [ru_d, ru_e, ru_v, ru_ya, ru_n, ru_o, ru_s, ru_t, ru_o])]"

definition russian_hundreds :: "(nat \<times> ustring) list" where
  "russian_hundreds =
     [(1, [ru_s, ru_t, ru_o]),
      (2, [ru_d, ru_v, ru_e, ru_s, ru_t, ru_i]),
      (3, [ru_t, ru_r, ru_i, ru_s, ru_t, ru_a]),
      (4, [ru_ch, ru_e, ru_t, ru_y, ru_r, ru_e, ru_s, ru_t, ru_a]),
      (5, [ru_p, ru_ya, ru_t, ru_soft, ru_s, ru_o, ru_t]),
      (6, [ru_sh, ru_e, ru_s, ru_t, ru_soft, ru_s, ru_o, ru_t]),
      (7, [ru_s, ru_e, ru_m, ru_soft, ru_s, ru_o, ru_t]),
      (8, [ru_v, ru_o, ru_s, ru_e, ru_m, ru_soft, ru_s, ru_o, ru_t]),
      (9, [ru_d, ru_e, ru_v, ru_ya, ru_t, ru_soft, ru_s, ru_o, ru_t])]"

text \<open>\<^verbatim>\<open>d[k]\<close> on one of these dictionaries; a missing key raises \<^verbatim>\<open>KeyError\<close>.\<close>

definition getitem :: "(nat \<times> ustring) list \<Rightarrow> nat \<Rightarrow> exn + ustring" where
  "getitem d k = (case map_of d k of None \<Rightarrow> Inl KeyError | Some w \<Rightarrow> Inr w)"

definition nol :: ustring where
  "nol = [ru_n, ru_o, ru_l, ru_soft]"

definition tysyacha :: ustring where
  "tysyacha = [ru_t, ru_y, ru_s, ru_ya, ru_ch, ru_a]"

definition tysyachi :: ustring where
  "tysyachi = [ru_t, ru_y, ru_s, ru_ya, ru_ch, ru_i]"

definition tysyach :: ustring where
  "tysyach = [ru_t, ru_y, ru_s, ru_ya, ru_ch]"

text \<open>
  The result of \<open>convert_russian_number\<close> is the text the caller makes of the Python
  result: the f-strings of the recursive calls format it, and for a string argument every
  \<^verbatim>\<open>return\<close> of the source gives a string (\<^verbatim>\<open>num_str\<close> itself in the \<^verbatim>\<open>else\<close> and the
  \<^verbatim>\<open>except\<close> branch). The whole body is inside \<^verbatim>\<open>try\<close>: any exception ends in
  \<^verbatim>\<open>return num_str\<close>. The recursive calls catch their own exceptions.
\<close>

function convert_russian_number :: "runtime \<Rightarrow> pyval \<Rightarrow> ustring" where
  "convert_russian_number R num_str =
     (case py_int R num_str of
        Inl e \<Rightarrow> py_format num_str
      | Inr num \<Rightarrow>
          if num = 0 then nol
          else if num < 20 then
            (case getitem russian_units num of Inl e \<Rightarrow> py_format num_str | Inr w \<Rightarrow> w)
          else if num < 100 then
            (let tens = num div 10; units = num mod 10 in
             if units = 0 then
               (case getitem russian_tens tens of Inl e \<Rightarrow> py_format num_str | Inr t \<Rightarrow> t)
             else
               (case getitem russian_tens tens of
                  Inl e \<Rightarrow> py_format num_str
                | Inr t \<Rightarrow>
                    (case getitem russian_units units of
                       Inl e \<Rightarrow> py_format num_str
                     | Inr u \<Rightarrow> t @ [sp] @ u)))
          else if num < 1000 then
            (let hundreds = num div 100; remainder = num mod 100 in
             if remainder = 0 then
               (case getitem russian_hundreds hundreds of
                  Inl e \<Rightarrow> py_format num_str | Inr h \<Rightarrow> h)
             else
               (case getitem russian_hundreds hundreds of
                  Inl e \<Rightarrow> py_format num_str
                | Inr h \<Rightarrow> h @ [sp] @ convert_russian_number R (PInt remainder)))
          else if num < 1000000 then
            (let thousands = num div 1000; remainder = num mod 1000 in
             if remainder = 0 then
               (if thousands = 1 then tysyacha
                else if thousands < 5 then
                  convert_russian_number R (PInt thousands) @ [sp] @ tysyachi
                else convert_russian_number R (PInt thousands) @ [sp] @ tysyach)
             else
               (if thousands = 1 then
                  tysyacha @ [sp] @ convert_russian_number R (PInt remainder)
                else if thousands < 5 then
                  convert_russian_number R (PInt thousands) @ [sp] @ tysyachi @ [sp] @
                  convert_russian_number R (PInt remainder)
                else
                  convert_russian_number R (PInt thousands) @ [sp] @ tysyach @ [sp] @
                  convert_russian_number R (PInt remainder)))
          else py_format num_str)"
  by pat_completeness auto
termination
  by (relation "measure (\<lambda>(R, v). case py_int R v of Inl e \<Rightarrow> 0 | Inr n \<Rightarrow> n)")
     (auto simp: py_int_def)

declare convert_russian_number.simps [simp del]

text \<open>
  The pattern \<^verbatim>\<open>\b\d+\b\<close>: a word boundary, the longest run of decimal digits, and a word
  boundary again; when there is no boundary behind the run the engine gives digits back
  one at a time, down to one digit.
\<close>

definition match_number :: "runtime \<Rightarrow> matcher" where
  "match_number R prev s =
     (let n = length (takeWhile (isdecimal R) s) in
      if word_boundary R prev (next_char s) then
        find (\<lambda>k. word_boundary R (Some (s ! (k - 1))) (next_char (drop k s))) (rev [1..<Suc n])
      else None)"

definition replace_numbers :: "runtime \<Rightarrow> ustring \<Rightarrow> ustring" where
  "replace_numbers R m = convert_russian_number R (PStr m)"

definition expand_numbers :: "runtime \<Rightarrow> ustring \<Rightarrow> ustring" where
  "expand_numbers R text = re_sub (match_number R) (replace_numbers R) text"

section \<open>String methods\<close>

text \<open>\<^verbatim>\<open>s.rstrip()\<close> and \<^verbatim>\<open>s.strip()\<close> remove whitespace at the ends.\<close>

definition rstrip :: "ustring \<Rightarrow> ustring" where
  "rstrip s = rev (dropWhile isspace (rev s))"

definition strip :: "ustring \<Rightarrow> ustring" where
  "strip s = dropWhile isspace (rstrip s)"

text \<open>\<^verbatim>\<open>s.split()\<close>: the maximal runs of characters that are not whitespace.\<close>

function split_ws :: "ustring \<Rightarrow> ustring list" where
  "split_ws s =
     (case dropWhile isspace s of
        [] \<Rightarrow> []
      | c # cs \<Rightarrow>
          takeWhile (\<lambda>x. \<not> isspace x) (c # cs) #
          split_ws (dropWhile (\<lambda>x. \<not> isspace x) cs))"
  by pat_completeness auto
termination
proof (relation "measure length")
  show "wf (measure length)" by simp
next
  fix s :: ustring and c cs
  assume a: "dropWhile isspace s = c # cs"
  have "length (dropWhile (\<lambda>x. \<not> isspace x) cs) \<le> length cs"
    by (rule length_dropWhile_le)
  moreover have "length (c # cs) \<le> length s"
    using length_dropWhile_le [of isspace s] a by simp
  ultimately show "(dropWhile (\<lambda>x. \<not> isspace x) cs, s) \<in> measure length"
    by simp
qed

declare split_ws.simps [simp del]

text \<open>\<^verbatim>\<open>sep.join(words)\<close>.\<close>

definition py_join :: "ustring \<Rightarrow> ustring list \<Rightarrow> ustring" where
  "py_join sep ws = (case ws of [] \<Rightarrow> [] | w # rest \<Rightarrow> w @ concat (map (\<lambda>x. sep @ x) rest))"

definition startswith :: "ustring \<Rightarrow> ustring \<Rightarrow> bool" where
  "startswith s t = (take (length t) s = t)"

definition endswith :: "ustring \<Rightarrow> ustring \<Rightarrow> bool" where
  "endswith s t = startswith (rev s) (rev t)"

text \<open>\<^verbatim>\<open>t in s\<close> for strings: \<open>t\<close> occurs in \<open>s\<close>.\<close>

definition py_in :: "ustring \<Rightarrow> ustring \<Rightarrow> bool" where
  "py_in t s = list_ex (\<lambda>i. startswith (drop i s) t) [0..<Suc (length s)]"

text \<open>
  \<^verbatim>\<open>s.replace(old, new)\<close> for a non-empty \<open>old\<close>: the occurrences of \<open>old\<close>, found from
  the left and not overlapping, become \<open>new\<close>. It is the scan of \<open>re_sub\<close> with the
  literal \<open>old\<close> as the pattern.
\<close>

definition match_literal :: "ustring \<Rightarrow> matcher" where
  "match_literal old prev s = (if startswith s old then Some (length old) else None)"

definition py_replace :: "ustring \<Rightarrow> ustring \<Rightarrow> ustring \<Rightarrow> ustring" where
  "py_replace old new s = re_sub (match_literal old) (\<lambda>m. new) s"

text \<open>\<^verbatim>\<open>s.split(sep)\<close> for a separator of one character.\<close>

fun split_on :: "uchar \<Rightarrow> ustring \<Rightarrow> ustring list" where
  "split_on sep [] = [[]]"
| "split_on sep (c # cs) =
     (if c = sep then [] # split_on sep cs
      else (case split_on sep cs of [] \<Rightarrow> [[c]] | w # ws \<Rightarrow> (c # w) # ws))"

section \<open>The input checks\<close>

definition is_only_symbols :: "runtime \<Rightarrow> ustring \<Rightarrow> bool" where
  "is_only_symbols R text =
     (let text_no_spaces = filter (\<lambda>c. c \<noteq> sp) text in
      if text_no_spaces = [] then True
      else \<not> list_ex (isalnum R) text_no_spaces)"

text \<open>
  The pattern \<^verbatim>\<open>(.)\1{3,}\<close>: a character other than the newline, followed by at least
  three more copies of it, as many as there are. The replacement \<^verbatim>\<open>\1\1\1\<close> is three
  copies of that character.
\<close>

definition match_repeat :: matcher where
  "match_repeat prev s =
     (case s of
        [] \<Rightarrow> None
      | c # cs \<Rightarrow>
          let n = length (takeWhile (\<lambda>x. x = c) cs) in
          if c \<noteq> 10 \<and> 3 \<le> n then Some (Suc n) else None)"

definition remove_long_symbol_sequences :: "ustring \<Rightarrow> ustring" where
  "remove_long_symbol_sequences text = re_sub match_repeat (\<lambda>m. replicate 3 (hd m)) text"

section \<open>Abbreviations\<close>

text \<open>
  The dictionary literal of \<open>_simple_number_conversion\<close>, item by item in the order of the
  source. Two keys are written twice; building the dictionary keeps the place of the first
  item of a key and the value of the last.
\<close>

definition abbreviation_items :: "(ustring \<times> ustring) list" where
  "abbreviation_items =
     [([ru_k, dot, ru_m, dot, ru_n, dot], [ru_k, ru_a, ru_n, ru_d, ru_i, ru_d, ru_a, ru_t, sp, ru_m, ru_e, ru_d, ru_i, ru_c, ru_i, ru_n, ru_s, ru_k, ru_i, ru_h, sp, ru_n, ru_a, ru_u, ru_k]),
      ([ru_d, dot, ru_m, dot, ru_n, dot], [ru_d, ru_o, ru_k, ru_t, ru_o, ru_r, sp, ru_m, ru_e, ru_d, ru_i, ru_c, ru_i, ru_n, ru_s, ru_k, ru_i, ru_h, sp, ru_n, ru_a, ru_u, ru_k]),
      ([ru_k, dot, ru_t, dot, ru_n, dot], [ru_k, ru_a, ru_n, ru_d, ru_i, ru_d, ru_a, ru_t, sp, ru_t, ru_e, ru_h, ru_n, ru_i, ru_ch, ru_e, ru_s, ru_k, ru_i, ru_h, sp, ru_n, ru_a, ru_u, ru_k]),
      ([ru_d, dot, ru_t, dot, ru_n, dot], [ru_d, ru_o, ru_k, ru_t, ru_o, ru_r, sp, ru_t, ru_e, ru_h, ru_n, ru_i, ru_ch, ru_e, ru_s, ru_k, ru_i, ru_h, sp, ru_n, ru_a, ru_u, ru_k]),
      ([ru_t, dot, ru_e, dot], [ru_t, ru_o, sp, ru_e, ru_s, ru_t, ru_soft]),
      ([ru_t, dot, ru_k, dot], [ru_t, ru_a, ru_k, sp, ru_k, ru_a, ru_k]),
      ([ru_t, dot, ru_d, dot], [ru_t, ru_a, ru_k, sp, ru_d, ru_a, ru_l, ru_e, ru_e]),
      ([ru_t, dot, ru_p, dot], [ru_t, ru_o, ru_m, ru_u, sp, ru_p, ru_o, ru_d, ru_o, ru_b, ru_n, ru_o, ru_e]),
      ([ru_i, sp, ru_t, dot, ru_d, dot], [ru_i, sp, ru_t, ru_a, ru_k, sp, ru_d, ru_a, ru_l, ru_e, ru_e]),
      ([ru_i, sp, ru_t, dot, ru_p, dot], [ru_i, sp, ru_t, ru_o, ru_m, ru_u, sp, ru_p, ru_o, ru_d, ru_o, ru_b, ru_n, ru_o, ru_e]),
      ([ru_d, ru_r, dot], [ru_d, ru_o, ru_k, ru_t, ru_o, ru_r]),
      ([ru_p, ru_r, ru_o, ru_f, dot], [ru_p, ru_r, ru_o, ru_f, ru_e, ru_s, ru_s, ru_o, ru_r]),
      ([ru_a, ru_k, ru_a, ru_d, dot], [ru_a, ru_k, ru_a, ru_d, ru_e, ru_m, ru_i, ru_k]),
      ([ru_g, ru_g, dot], [ru_g, ru_o, ru_d, ru_y]),
      ([ru_v, ru_v, dot], [ru_v, ru_e, ru_k, ru_a]),
      ([ru_g, dot], [ru_g, ru_o, ru_d]),
      ([ru_m, ru_i, ru_n, dot], [ru_m, ru_i, ru_n, ru_u, ru_t, ru_a]),
      ([ru_s, ru_e, ru_k, dot], [ru_s, ru_e, ru_k, ru_u, ru_n, ru_d, ru_a]),
      ([ru_ch, dot], [ru_ch, ru_a, ru_s]),
      ([ru_s, ru_u, ru_t, dot], [ru_s, ru_u, ru_t, ru_k, ru_i]),
      ([ru_t, ru_t, dot], [ru_t, ru_o, ru_m, ru_a]),
      ([ru_s, ru_t, ru_r, dot], [ru_s, ru_t, ru_r, ru_a, ru_n, ru_i, ru_c, ru_a]),
      ([ru_s, dot], [ru_s, ru_t, ru_r, ru_a, ru_n, ru_i, ru_c, ru_a]),
      ([ru_g, ru_l, dot], [ru_g, ru_l, ru_a, ru_v, ru_a]),
      ([ru_p, ru_p, dot], [ru_p, ru_u, ru_n, ru_k, ru_t, ru_y]),
      ([ru_ch, ru_ch, dot], [ru_ch, ru_a, ru_s, ru_t, ru_i]),
      ([ru_t, dot], [ru_t, ru_o, ru_m]),
      ([ru_p, dot], [ru_p, ru_u, ru_n, ru_k, ru_t]),
      ([ru_ch, dot], [ru_ch, ru_a, ru_s, ru_t, ru_soft]),
      (ascii ''GPT'', [ru_d, ru_zh, ru_i, sp, ru_p, ru_i, sp, ru_t, ru_i]),
      (ascii ''AI'', [ru_eh, ru_j, sp, ru_a, ru_j]),
      (ascii ''CPU'', [ru_s, ru_i, sp, ru_p, ru_i, sp, ru_yu]),
      (ascii ''GPU'', [ru_d, ru_zh, ru_i, sp, ru_p, ru_i, sp, ru_yu]),
      (ascii ''RAM'', [ru_r, ru_eh, ru_m]),
      (ascii ''ROM'', [ru_r, ru_o, ru_m]),
      (ascii ''USB'', [ru_yu, sp, ru_eh, ru_s, sp, ru_b, ru_i]),
      (ascii ''HDD'', [ru_h, ru_eh, sp, ru_d, ru_eh, sp, ru_d, ru_eh]),
      (ascii ''SSD'', [ru_eh, ru_s, sp, ru_eh, ru_s, sp, ru_d, ru_eh]),
      (ascii ''API'', [ru_eh, ru_j, sp, ru_p, ru_i, sp, ru_a, ru_j]),
      (ascii ''URL'', [ru_yu, sp, ru_a, ru_r, sp, ru_eh, ru_l]),
      (ascii ''HTTP'', [ru_h, ru_eh, sp, ru_t, ru_eh, sp, ru_t, ru_eh, sp, ru_p, ru_i]),
      (ascii ''HTTPS'', [ru_h, ru_eh, sp, ru_t, ru_eh, sp, ru_t, ru_eh, sp, ru_p, ru_i, sp, ru_eh, ru_s]),
      (ascii ''HTML'', [ru_h, ru_eh, sp, ru_t, ru_eh, sp, ru_eh, ru_m, sp, ru_eh, ru_l]),
      (ascii ''CSS'', [ru_s, ru_i, sp, ru_eh, ru_s, sp, ru_eh, ru_s]),
      (ascii ''JS'', [ru_d, ru_zh, ru_e, ru_j, sp, ru_eh, ru_s]),
      (ascii ''JSON'', [ru_d, ru_zh, ru_e, ru_j, ru_s, ru_o, ru_n]),
      (ascii ''XML'', [ru_i, ru_k, ru_s, sp, ru_eh, ru_m, sp, ru_eh, ru_l]),
      (ascii ''PDF'', [ru_p, ru_i, sp, ru_d, ru_eh, sp, ru_eh, ru_f]),
      (ascii ''MP3'', [ru_eh, ru_m, sp, ru_p, ru_i, sp, ru_t, ru_r, ru_i]),
      (ascii ''MP4'', [ru_eh, ru_m, sp, ru_p, ru_i, sp, ru_f, ru_o]),
      (ascii ''AVI'', [ru_eh, ru_j, sp, ru_v, ru_i, sp, ru_a, ru_j]),
      (ascii ''MKV'', [ru_eh, ru_m, sp, ru_k, ru_e, ru_j, sp, ru_v, ru_i]),
      (ascii ''JPG'', [ru_d, ru_zh, ru_e, ru_j, sp, ru_p, ru_i, sp, ru_d, ru_zh, ru_i]),
      (ascii ''PNG'', [ru_p, ru_i, sp, ru_eh, ru_n, sp, ru_d, ru_zh, ru_i]),
      (ascii ''GIF'', [ru_d, ru_zh, ru_i, sp, ru_a, ru_j, sp, ru_eh, ru_f]),
      (ascii ''ZIP'', [ru_z, ru_i, ru_p]),
      (ascii ''RAR'', [ru_r, ru_a, ru_r]),
      (ascii ''7Z'', [ru_s, ru_e, ru_m, ru_soft, sp, ru_z, ru_e, ru_t]),
      (ascii ''UN'', [ru_yu, sp, ru_eh, ru_n]),
      (ascii ''UNESCO'', [ru_yu, ru_n, ru_e, ru_s, ru_k, ru_o]),
      (ascii ''NASA'', [ru_n, ru_a, ru_s, ru_a]),
      (ascii ''FBI'', [ru_eh, ru_f, sp, ru_b, ru_i, sp, ru_a, ru_j]),
      (ascii ''CIA'', [ru_s, ru_i, sp, ru_a, ru_j, sp, ru_eh, ru_j]),
      (ascii ''KGB'', [ru_k, ru_a, sp, ru_g, ru_eh, sp, ru_b, ru_eh]),
      (ascii ''USSR'', [ru_u, sp, ru_eh, ru_s, sp, ru_eh, ru_s, sp, ru_eh, ru_r]),
      (ascii ''EU'', [ru_i, sp, ru_yu]),
      (ascii ''NATO'', [ru_n, ru_a, ru_t, ru_o]),
      (ascii ''WHO'', [ru_d, ru_a, ru_b, ru_l, sp, ru_yu, sp, ru_eh, ru_j, ru_ch, sp, ru_o]),
      ([ru_k, ru_g], [ru_k, ru_i, ru_l, ru_o, ru_g, ru_r, ru_a, ru_m, ru_m]),
      ([ru_k, ru_m], [ru_k, ru_i, ru_l, ru_o, ru_m, ru_e, ru_t, ru_r]),
      ([ru_s, ru_m], [ru_s, ru_a, ru_n, ru_t, ru_i, ru_m, ru_e, ru_t, ru_r]),
      ([ru_m, ru_m], [ru_m, ru_i, ru_l, ru_l, ru_i, ru_m, ru_e, ru_t, ru_r]),
      ([ru_l], [ru_l, ru_i, ru_t, ru_r]),
      ([ru_m, ru_l], [ru_m, ru_i, ru_l, ru_l, ru_i, ru_l, ru_i, ru_t, ru_r]),
      ([RU_V, ru_t], [ru_v, ru_a, ru_t, ru_t]),
      ([ru_k, RU_V, ru_t], [ru_k, ru_i, ru_l, ru_o, ru_v, ru_a, ru_t, ru_t]),
      ([RU_A], [ru_a, ru_m, ru_p, ru_e, ru_r]),
      ([RU_G, ru_c], [ru_g, ru_e, ru_r, ru_c]),
      ([ru_k, RU_G, ru_c], [ru_k, ru_i, ru_l, ru_o, ru_g, ru_e, ru_r, ru_c]),
      ([RU_M, RU_G, ru_c], [ru_m, ru_e, ru_g, ru_a, ru_g, ru_e, ru_r, ru_c]),
      ([RU_G, RU_G, ru_c], [ru_g, ru_i, ru_g, ru_a, ru_g, ru_e, ru_r, ru_c]),
      ([ru_m], [ru_m, ru_e, ru_t, ru_r]),
      ([ru_s, ru_m, dot], [ru_s, ru_m, ru_o, ru_t, ru_r, ru_i]),
      ([ru_n, ru_a, ru_p, ru_r, dot], [ru_n, ru_a, ru_p, ru_r, ru_i, ru_m, ru_e, ru_r]),
      ([ru_o, ru_k, dot], [ru_o, ru_k, ru_o, ru_l, ru_o]),
      ([ru_p, ru_r, ru_i, ru_m, dot], [ru_p, ru_r, ru_i, ru_m, ru_e, ru_r, ru_n, ru_o]),
      ([ru_m, ru_a, ru_k, ru_s, dot], [ru_m, ru_a, ru_k, ru_s, ru_i, ru_m, ru_u, ru_m]),
      ([ru_m, ru_i, ru_n, dot], [ru_m, ru_i, ru_n, ru_i, ru_m, ru_u, ru_m]),
      ([ru_s, ru_r, dot], [ru_s, ru_r, ru_e, ru_d, ru_n, ru_i, ru_j])]"

definition dict_of_items :: "(ustring \<times> ustring) list \<Rightarrow> (ustring \<times> ustring) list" where
  "dict_of_items items = foldl (\<lambda>d kv. AList.update (fst kv) (snd kv) d) [] items"

definition abbreviations :: "(ustring \<times> ustring) list" where
  "abbreviations = dict_of_items abbreviation_items"

text \<open>
  \<^verbatim>\<open>sorted(d.items(), key=lambda x: len(x[0]), reverse=True)\<close>: by descending length of
  the key, items of equal length in the order of the dictionary (the sort is stable, also
  when reversed).
\<close>

definition sorted_by_length :: "(ustring \<times> ustring) list \<Rightarrow> (ustring \<times> ustring) list" where
  "sorted_by_length d = sort_key (\<lambda>kv. - int (length (fst kv))) d"

text \<open>The escaped key, matched case-insensitively character by character.\<close>

fun ic_prefix :: "runtime \<Rightarrow> ustring \<Rightarrow> ustring \<Rightarrow> bool" where
  "ic_prefix R [] s = True"
| "ic_prefix R (p # ps) [] = False"
| "ic_prefix R (p # ps) (c # cs) = (ic_match R p c \<and> ic_prefix R ps cs)"

text \<open>
  A key with a period is matched by \<^verbatim>\<open>(?<!\w)key(?!\w)\<close>, a key without one by
  \<^verbatim>\<open>\bkey\b\<close>; both with \<^verbatim>\<open>re.IGNORECASE\<close>.
\<close>

definition match_abbr :: "runtime \<Rightarrow> ustring \<Rightarrow> matcher" where
  "match_abbr R abbr prev s =
     (if dot \<in> set abbr then
        (if \<not> word_at R prev \<and> ic_prefix R abbr s \<and>
            \<not> word_at R (next_char (drop (length abbr) s))
         then Some (length abbr) else None)
      else
        (if word_boundary R prev (next_char s) \<and> ic_prefix R abbr s \<and>
            word_boundary R (next_char (drop (length abbr - 1) s))
              (next_char (drop (length abbr) s))
         then Some (length abbr) else None))"

definition expand_abbreviations :: "runtime \<Rightarrow> ustring \<Rightarrow> ustring" where
  "expand_abbreviations R text =
     foldl (\<lambda>result kv. re_sub (match_abbr R (fst kv)) (\<lambda>m. snd kv) result) text
       (sorted_by_length abbreviations)"

text \<open>The pattern \<^verbatim>\<open>^\<close>U+0412\<^verbatim>\<open>\s+\<close>, replaced by that letter and one space.\<close>

definition match_leading_V :: matcher where
  "match_leading_V prev s =
     (case prev of
        Some x \<Rightarrow> None
      | None \<Rightarrow>
          (case s of
             [] \<Rightarrow> None
           | c # cs \<Rightarrow>
               let n = length (takeWhile isspace cs) in
               if c = RU_V \<and> 0 < n then Some (Suc n) else None))"

section \<open>The English branch\<close>

definition number_map_items :: "(ustring \<times> ustring) list" where
  "number_map_items =
     [(ascii ''0'', ascii ''zero''),
      (ascii ''1'', ascii ''one''),
      (ascii ''2'', ascii ''two''),
      (ascii ''3'', ascii ''three''),
      (ascii ''4'', ascii ''four''),
      (ascii ''5'', ascii ''five''),
      (ascii ''6'', ascii ''six''),
      (ascii ''7'', ascii ''seven''),
      (ascii ''8'', ascii ''eight''),
      (ascii ''9'', ascii ''nine''),
      (ascii ''10'', ascii ''ten''),
      (ascii ''11'', ascii ''eleven''),
      (ascii ''12'', ascii ''twelve''),
      (ascii ''13'', ascii ''thirteen''),
      (ascii ''14'', ascii ''fourteen''),
      (ascii ''15'', ascii ''fifteen''),
      (ascii ''16'', ascii ''sixteen''),
      (ascii ''17'', ascii ''seventeen''),
      (ascii ''18'', ascii ''eighteen''),
      (ascii ''19'', ascii ''nineteen''),
      (ascii ''20'', ascii ''twenty''),
      (ascii ''30'', ascii ''thirty''),
      (ascii ''40'', ascii ''forty''),
      (ascii ''50'', ascii ''fifty''),
      (ascii ''60'', ascii ''sixty''),
      (ascii ''70'', ascii ''seventy''),
      (ascii ''80'', ascii ''eighty''),
      (ascii ''90'', ascii ''ninety''),
      (ascii ''100'', ascii ''one hundred''),
      (ascii ''1000'', ascii ''one thousand'')]"

definition english_number_conversion :: "ustring \<Rightarrow> ustring" where
  "english_number_conversion text =
     foldl (\<lambda>result kv. py_replace (fst kv) (snd kv) result) text
       (sorted_by_length (dict_of_items number_map_items))"

definition simple_number_conversion :: "runtime \<Rightarrow> ustring \<Rightarrow> language \<Rightarrow> ustring" where
  "simple_number_conversion R text language =
     (if language = Russian then
        (let result = text;
             result = re_sub match_leading_V (\<lambda>m. [RU_V, sp]) result;
             result = expand_abbreviations R result;
             result = expand_numbers R result
         in result)
      else english_number_conversion text)"

section \<open>The yoficator\<close>

subsection \<open>Loading the dictionary\<close>

text \<open>
  \<open>fold_yo\<close> is \<^verbatim>\<open>re.sub(\<close>U+0451\<^verbatim>\<open>, \<close>U+0435\<^verbatim>\<open>, value)\<close>: the key under which a value is stored.
  The dictionary keeps the order of insertion, as a list of items.
\<close>

definition fold_yo :: "ustring \<Rightarrow> ustring" where
  "fold_yo s = map (\<lambda>c. if c = ru_yo then ru_e else c) s"

definition store :: "ustring \<Rightarrow> (ustring \<times> ustring) list \<Rightarrow> (ustring \<times> ustring) list" where
  "store v d = AList.update (fold_yo v) v d"

text \<open>
  One line of the file. A line with \<^verbatim>\<open>*\<close> is skipped. \<^verbatim>\<open>bline, sline = cline.split("(")\<close>
  raises \<^verbatim>\<open>ValueError\<close> unless the line has exactly one \<^verbatim>\<open>(\<close>.
\<close>

definition load_line :: "(ustring \<times> ustring) list \<Rightarrow> ustring \<Rightarrow> exn + (ustring \<times> ustring) list" where
  "load_line d line =
     (if 42 \<in> set line then Inr d
      else
        let cline = rev (dropWhile (\<lambda>c. c = 10) (rev line));
            parts = (if 40 \<in> set cline then
                       (case split_on 40 cline of
                          [bline, sline] \<Rightarrow> Inr (bline, filter (\<lambda>c. c \<noteq> 41) sline)
                        | _ \<Rightarrow> Inl ValueError)
                     else Inr (cline, []))
        in case parts of
             Inl e \<Rightarrow> Inl e
           | Inr (bline, sline) \<Rightarrow>
               if 124 \<in> set sline then
                 Inr (foldl (\<lambda>d ss. store (bline @ ss) d) d (split_on 124 sline))
               else Inr (store bline d))"

fun load_lines :: "(ustring \<times> ustring) list \<Rightarrow> ustring list \<Rightarrow> exn + (ustring \<times> ustring) list" where
  "load_lines d [] = Inr d"
| "load_lines d (line # lines) =
     (case load_line d line of Inl e \<Rightarrow> Inl e | Inr d' \<Rightarrow> load_lines d' lines)"

text \<open>
  \<open>load_dictionary\<close> gets the lines of the file, or \<open>None\<close> when the file is not found:
  then the dictionary is empty. Another exception leaves the constructor.
\<close>

definition load_dictionary :: "ustring list option \<Rightarrow> exn + (ustring \<times> ustring) list" where
  "load_dictionary file = (case file of None \<Rightarrow> Inr [] | Some lines \<Rightarrow> load_lines [] lines)"

subsection \<open>Tokens\<close>

text \<open>
  \<^verbatim>\<open>re.compile(r'(\s+|\w+|\W+|\S+)').findall(text)\<close>. The alternatives are tried in
  order at each position: a run of whitespace, else a run of word characters, else a run
  of characters that are not word characters (each as long as it goes). Every character
  is in \<^verbatim>\<open>\w\<close> or in \<^verbatim>\<open>\W\<close>, so the last alternative is never reached.
\<close>

definition token_class :: "runtime \<Rightarrow> uchar \<Rightarrow> uchar \<Rightarrow> bool" where
  "token_class R c =
     (if isspace c then isspace
      else if is_word R c then is_word R
      else (\<lambda>x. \<not> is_word R x))"

function tokens :: "runtime \<Rightarrow> ustring \<Rightarrow> ustring list" where
  "tokens R [] = []"
| "tokens R (c # cs) =
     (c # takeWhile (token_class R c) cs) # tokens R (dropWhile (token_class R c) cs)"
  by pat_completeness auto
termination
  by (relation "measure (\<lambda>(R, s). length s)")
     (auto simp: length_dropWhile_le less_Suc_eq_le)

subsection \<open>The rules for words that are not in the dictionary\<close>

definition telka :: ustring where "telka = [ru_t, ru_e, ru_l, ru_k, ru_a]"
definition osel :: ustring where "osel = [ru_o, ru_s, ru_e, ru_l]"
definition eshche :: ustring where "eshche = [ru_e, ru_shch, ru_e]"
definition eshchyo :: ustring where "eshchyo = [ru_e, ru_shch, ru_yo]"
definition ee :: ustring where "ee = [ru_e, ru_e]"
definition eyo :: ustring where "eyo = [ru_e, ru_yo]"
definition proiznes :: ustring where "proiznes = [ru_p, ru_r, ru_o, ru_i, ru_z, ru_n, ru_e, ru_s]"

definition exceptions_el :: "ustring list" where
  "exceptions_el =
     [[ru_m, ru_e, ru_d, ru_v, ru_e, ru_d, ru_soft],
      [ru_p, ru_r, ru_i, ru_v, ru_e, ru_t],
      [ru_k, ru_a, ru_k],
      [ru_d, ru_e, ru_l, ru_a],
      [ru_u, ru_d, ru_e, ru_l],
      [ru_p, ru_r, ru_e, ru_d, ru_e, ru_l],
      [ru_u, ru_m, ru_e, ru_l],
      [ru_s, ru_m, ru_e, ru_l],
      [ru_d, ru_e, ru_l, ru_a]]"

definition exceptions_a :: "ustring list" where
  "exceptions_a =
     [[ru_t, ru_e, ru_l, ru_k, ru_a],
      [ru_shch, ru_e, ru_l, ru_k, ru_a],
      [ru_m, ru_e, ru_l, ru_k, ru_a],
      [ru_zh, ru_e, ru_l, ru_t, ru_k, ru_a],
      [ru_d, ru_e, ru_l, ru_a]]"

text \<open>
  The pattern U+0435\<^verbatim>\<open>([^\<close>U+0451\<^verbatim>\<open>]*)$\<close>: that letter with no U+0451 anywhere behind it (the
  group then runs to the end of the text). The replacement is U+0451 and the group.
\<close>

definition match_e_tail :: matcher where
  "match_e_tail prev s =
     (case s of
        [] \<Rightarrow> None
      | c # cs \<Rightarrow> if c = ru_e \<and> ru_yo \<notin> set cs then Some (Suc (length cs)) else None)"

definition apply_additional_rules :: "runtime \<Rightarrow> ustring \<Rightarrow> ustring" where
  "apply_additional_rules R word =
     (if word = [] \<or> \<not> list_all (isalpha R) word then word
      else if str_lower R word = telka then py_replace [ru_e] [ru_yo] word
      else if str_lower R word = osel then py_replace [ru_e] [ru_yo] word
      else if str_lower R word = eshche then eshchyo
      else if str_lower R word = ee then eyo
      else if str_lower R word = proiznes then py_replace [ru_e] [ru_yo] word
      else if endswith (str_lower R word) [ru_e, ru_l] \<and> length word > 3 \<and>
              str_lower R word \<notin> set exceptions_el
           then py_replace [ru_e, ru_l] [ru_yo, ru_l] word
      else if endswith (str_lower R word) [ru_a] \<and> ru_e \<in> set (butlast (str_lower R word)) \<and>
              str_lower R word \<notin> set exceptions_a
           then re_sub match_e_tail (\<lambda>m. ru_yo # tl m) word
      else word)"

subsection \<open>Yofication\<close>

definition yoficate_token :: "runtime \<Rightarrow> (ustring \<times> ustring) list \<Rightarrow> ustring \<Rightarrow> ustring" where
  "yoficate_token R dictionary token =
     (case map_of dictionary token of
        Some v \<Rightarrow> v
      | None \<Rightarrow> apply_additional_rules R token)"

definition yoficate :: "runtime \<Rightarrow> (ustring \<times> ustring) list \<Rightarrow> ustring \<Rightarrow> ustring" where
  "yoficate R dictionary text =
     (if dictionary = [] then text
      else concat (map (yoficate_token R dictionary) (tokens R text)))"

section \<open>The normalization pipeline\<close>

text \<open>
  \<open>normalize_text\<close>; the function \<^verbatim>\<open>_preprocess_gpt_issues\<close> returns its argument. The
  call of the yoficator is inside \<^verbatim>\<open>try\<close>, but nothing in \<open>yoficate\<close> raises.
\<close>

definition normalize_text ::
  "runtime \<Rightarrow> (ustring \<times> ustring) list \<Rightarrow> ustring \<Rightarrow> language \<Rightarrow> ustring" where
  "normalize_text R dictionary text language =
     (if strip text = [] then text
      else
        let preprocessed_text = text;
            normalized_text = simple_number_conversion R preprocessed_text language
        in if language = Russian then yoficate R dictionary normalized_text
           else normalized_text)"

text \<open>
  The synthesizer object: the accent switch, the accent model (\<open>None\<close> when it is not
  loaded; its call gives \<open>None\<close> when it raises or offers neither method), the speech model
  (\<open>None\<close> when it is not loaded; see below) and the dictionary of the yoficator module.
\<close>

record infer_params =
  ref_file :: ustring
  ref_text :: ustring
  gen_text :: ustring
  cross_fade_duration :: real
  speed :: real
  target_rms :: real
  sway_sampling_coef :: real
  cfg_strength :: real
  nfe_step :: int
  remove_silence :: bool
  fix_duration :: "real option"
  seed :: "int option"

record tts =
  enable_accent :: bool
  accentizer :: "(ustring \<Rightarrow> ustring option) option"
  russian_tts :: "(infer_params \<Rightarrow> bool) option"
  yo_dictionary :: "(ustring \<times> ustring) list"

definition add_accents :: "tts \<Rightarrow> ustring \<Rightarrow> ustring" where
  "add_accents T text =
     (case accentizer T of
        None \<Rightarrow> text
      | Some process \<Rightarrow>
          if strip text = [] then text
          else (case process text of None \<Rightarrow> text | Some accented_text \<Rightarrow> accented_text))"

definition ends_with_mark :: "ustring \<Rightarrow> bool" where
  "ends_with_mark s = (endswith s [dot] \<or> endswith s [33] \<or> endswith s [63])"

definition preprocess_text_for_tts :: "runtime \<Rightarrow> tts \<Rightarrow> ustring \<Rightarrow> ustring" where
  "preprocess_text_for_tts R T text =
     (let processed_text = strip text in
      if processed_text = [] then []
      else if is_only_symbols R processed_text then []
      else
        let processed_text = remove_long_symbol_sequences processed_text in
        if strip processed_text = [] then []
        else
          let language = detect_language R processed_text;
              processed_text = py_join [sp] (split_ws processed_text);
              processed_text = normalize_text R (yo_dictionary T) processed_text language;
              processed_text =
                (if language = Russian \<and> enable_accent T then add_accents T processed_text
                 else processed_text)
          in if processed_text \<noteq> [] then
               (let processed_text = rstrip processed_text in
                if \<not> ends_with_mark processed_text then processed_text @ [dot]
                else processed_text)
             else processed_text)"

section \<open>Synthesis\<close>

text \<open>
  The arguments of \<open>synthesize_speech\<close>, with \<open>None\<close> for an omitted \<^verbatim>\<open>speed\<close>,
  \<^verbatim>\<open>nfe_step\<close>, \<^verbatim>\<open>fix_duration\<close> or \<^verbatim>\<open>seed\<close>.
\<close>

record synth_args =
  arg_text :: ustring
  arg_ref_audio_path :: ustring
  arg_ref_text :: ustring
  arg_cross_fade_duration :: real
  arg_speed :: "real option"
  arg_silence_duration_ms :: int
  arg_target_rms :: real
  arg_sway_sampling_coef :: real
  arg_cfg_strength :: real
  arg_nfe_step :: "int option"
  arg_fix_duration :: "real option"
  arg_remove_silence :: bool
  arg_seed :: "int option"

text \<open>
  What \<open>synthesize_speech\<close> does outside the program: it reads the clock, makes the output
  directory, calls the speech model and writes the file. The speech model of the object
  stands for the call of \<^verbatim>\<open>infer\<close> and everything behind it inside the same \<^verbatim>\<open>try\<close>: it
  says whether they end without an exception. The result records the returned path
  (\<open>None\<close> for Python's \<^verbatim>\<open>None\<close>) and the parameters of every call of the model.
\<close>

record environment =
  time_ms :: nat
  mkdir_ok :: bool

record synth_result =
  returned :: "ustring option"
  engine_calls :: "infer_params list"

definition DEFAULT_VOICE_TRANSCRIPTION :: ustring where
  "DEFAULT_VOICE_TRANSCRIPTION =
     [RU_S, ru_e, ru_k, ru_r, ru_e, ru_t, ru_y, sp, ru_v, ru_s, ru_e, ru_g, ru_d, ru_a, sp,
      ru_r, ru_ya, ru_d, ru_o, ru_m, 44, sp, RU_S, ru_k, ru_u, ru_f, dot, sp, 1053, ru_u,
      ru_zh, ru_n, ru_o, sp, ru_l, ru_i, ru_sh, ru_soft, sp, ru_t, ru_i, ru_h, ru_o, sp,
      ru_p, ru_r, ru_i, ru_s, ru_l, ru_u, ru_sh, ru_a, ru_t, ru_soft, ru_s, ru_ya, sp, ru_i,
      sp, ru_u, ru_s, ru_l, ru_y, ru_sh, ru_a, ru_t, ru_soft, sp, ru_i, ru_h, dot]"

definition synthesize_speech :: "runtime \<Rightarrow> tts \<Rightarrow> environment \<Rightarrow> synth_args \<Rightarrow> synth_result" where
  "synthesize_speech R T E a =
     (let processed_text = preprocess_text_for_tts R T (arg_text a) in
      if processed_text = [] then \<lparr>returned = None, engine_calls = []\<rparr>
      else
        let language = detect_language R processed_text;
            speed =
              (case arg_speed a of
                 Some s \<Rightarrow> s
               | None \<Rightarrow>
                   let length_without_spaces = length (filter (\<lambda>c. c \<noteq> sp) processed_text) in
                   if length_without_spaces \<le> 3 then 0.1
                   else if length_without_spaces \<le> 8 then 0.3
                   else if length_without_spaces \<le> 18 then 0.6
                   else if length_without_spaces \<le> 35 then 0.8
                   else if length_without_spaces \<le> 45 then 0.9
                   else 1.0);
            nfe_step =
              (case arg_nfe_step a of
                 Some n \<Rightarrow> n
               | None \<Rightarrow>
                   let length_without_spaces = length (filter (\<lambda>c. c \<noteq> sp) processed_text) in
                   if length_without_spaces > 120 then 18 else 26)
        in case russian_tts T of
             None \<Rightarrow> \<lparr>returned = None, engine_calls = []\<rparr>
           | Some tts_model \<Rightarrow>
               let ref_text_to_use =
                     (if arg_ref_text a \<noteq> [] then arg_ref_text a else DEFAULT_VOICE_TRANSCRIPTION)
               in if \<not> mkdir_ok E then \<lparr>returned = None, engine_calls = []\<rparr>
                  else
                    let output_path =
                          ascii ''audio_output/russian_'' @ language_name language @ ascii ''_'' @
                          str_nat (time_ms E) @ ascii ''.wav'';
                        infer_params =
                          \<lparr> ref_file = arg_ref_audio_path a,
                            ref_text = ref_text_to_use,
                            gen_text = processed_text,
                            cross_fade_duration = arg_cross_fade_duration a,
                            speed = speed,
                            target_rms = arg_target_rms a,
                            sway_sampling_coef = arg_sway_sampling_coef a,
                            cfg_strength = arg_cfg_strength a,
                            nfe_step = nfe_step,
                            remove_silence = arg_remove_silence a,
                            fix_duration = arg_fix_duration a,
                            seed = arg_seed a \<rparr>
                    in if tts_model infer_params
                       then \<lparr>returned = Some output_path, engine_calls = [infer_params]\<rparr>
                       else \<lparr>returned = None, engine_calls = [infer_params]\<rparr>)"

section \<open>Example objects\<close>

text \<open>
  A synthesizer without accent model and with an empty yoficator dictionary, whose speech
  model always succeeds; and the arguments of a call that gives only the text and the
  reference audio, all others at the defaults of the signature.
\<close>

definition plain_tts :: tts where
  "plain_tts =
     \<lparr> enable_accent = False, accentizer = None, russian_tts = Some (\<lambda>p. True),
       yo_dictionary = [] \<rparr>"

definition default_args :: "ustring \<Rightarrow> ustring \<Rightarrow> synth_args" where
  "default_args text ref_audio_path =
     \<lparr> arg_text = text, arg_ref_audio_path = ref_audio_path, arg_ref_text = [],
       arg_cross_fade_duration = 0.15, arg_speed = None, arg_silence_duration_ms = 100,
       arg_target_rms = 0.1, arg_sway_sampling_coef = - 1, arg_cfg_strength = 2,
       arg_nfe_step = None, arg_fix_duration = None, arg_remove_silence = False,
       arg_seed = None \<rparr>"

section \<open>Predicates of the statements\<close>

text \<open>
  \<open>adjacent_ws\<close>: two whitespace characters in a row. \<open>ws_clean\<close>: no whitespace at either
  end and no two whitespace characters in a row. \<open>ru_word\<close>: a non-empty string of small
  Russian letters. \<open>ru_phrase\<close>: such words separated by single spaces.
\<close>

fun adjacent_ws :: "ustring \<Rightarrow> bool" where
  "adjacent_ws (a # b # cs) = ((isspace a \<and> isspace b) \<or> adjacent_ws (b # cs))"
| "adjacent_ws [a] = False"
| "adjacent_ws [] = False"

definition ws_clean :: "ustring \<Rightarrow> bool" where
  "ws_clean s = ((s = [] \<or> (\<not> isspace (hd s) \<and> \<not> isspace (last s))) \<and> \<not> adjacent_ws s)"

definition ru_word :: "ustring \<Rightarrow> bool" where
  "ru_word w = (w \<noteq> [] \<and> list_all ru_lower w)"

definition ru_phrase :: "ustring \<Rightarrow> bool" where
  "ru_phrase w = (w \<noteq> [] \<and> list_all (\<lambda>c. ru_lower c \<or> c = sp) w \<and> ws_clean w)"

text \<open>
  The first stage of \<open>preprocess_text_for_tts\<close>, up to the choice of the language: the
  text is stripped, rejected when it is only symbols, its long runs are cut, and it is
  rejected when nothing but whitespace is left.
\<close>

definition sanitize :: "runtime \<Rightarrow> ustring \<Rightarrow> ustring" where
  "sanitize R text =
     (let processed_text = strip text in
      if processed_text = [] then []
      else if is_only_symbols R processed_text then []
      else
        let processed_text = remove_long_symbol_sequences processed_text in
        if strip processed_text = [] then [] else processed_text)"

section \<open>Facts about the tables\<close>

lemma fold_basic_space: "fold_basic p = fold_basic c \<Longrightarrow> isspace c \<Longrightarrow> p = c"
  by (auto simp: fold_basic_def isspace_def split: if_splits)

lemma fold_basic_ru_lower: "ru_lower (fold_basic c) \<Longrightarrow> ru_letter c"
  by (auto simp: ru_lower_def ru_letter_def fold_basic_def split: if_splits)

lemma isspace_not_basic_alnum: "isspace c \<Longrightarrow> \<not> (ascii_digit c \<or> ascii_letter c \<or> ru_letter c)"
  by (auto simp: isspace_def ascii_digit_def ascii_letter_def ru_letter_def)

lemma basic_runtime_wf: "runtime_wf basic_runtime"
  unfolding runtime_wf_def basic_runtime_def
  by (simp add: list_all_iff)
     (use fold_basic_space fold_basic_ru_lower isspace_not_basic_alnum in blast)

lemma wf_ic_basic:
  "runtime_wf R \<Longrightarrow> basic p \<Longrightarrow> basic c \<Longrightarrow> ic_match R p c = (fold_basic p = fold_basic c)"
  by (simp add: runtime_wf_def)

lemma wf_isdecimal_basic: "runtime_wf R \<Longrightarrow> basic c \<Longrightarrow> isdecimal R c = ascii_digit c"
  by (simp add: runtime_wf_def)

lemma wf_isalnum_basic:
  "runtime_wf R \<Longrightarrow> basic c \<Longrightarrow> isalnum R c = (ascii_digit c \<or> ascii_letter c \<or> ru_letter c)"
  by (simp add: runtime_wf_def)

lemma wf_isalpha_basic:
  "runtime_wf R \<Longrightarrow> basic c \<Longrightarrow> isalpha R c = (ascii_letter c \<or> ru_letter c)"
  by (simp add: runtime_wf_def)

lemma wf_digit_value: "runtime_wf R \<Longrightarrow> ascii_digit c \<Longrightarrow> digit_value R c = c - 48"
  by (simp add: runtime_wf_def)

lemma wf_decimal_word: "runtime_wf R \<Longrightarrow> isdecimal R c \<Longrightarrow> is_word R c"
  by (simp add: runtime_wf_def is_word_def)

lemma wf_alpha_alnum: "runtime_wf R \<Longrightarrow> isalpha R c \<Longrightarrow> isalnum R c"
  by (simp add: runtime_wf_def)

lemma wf_space_not_alnum: "runtime_wf R \<Longrightarrow> isspace c \<Longrightarrow> \<not> isalnum R c"
  by (simp add: runtime_wf_def)

lemma wf_space_not_word: "runtime_wf R \<Longrightarrow> isspace c \<Longrightarrow> \<not> is_word R c"
  by (auto simp: runtime_wf_def is_word_def isspace_def)

lemma wf_ic_space: "runtime_wf R \<Longrightarrow> ic_match R p c \<Longrightarrow> isspace c \<Longrightarrow> p = c"
  by (simp add: runtime_wf_def)

lemma wf_lower_ru:
  "runtime_wf R \<Longrightarrow> list_all ru_lower (str_lower R w) \<Longrightarrow>
     list_all ru_letter w \<and> str_lower R w = map fold_basic w"
  by (simp add: runtime_wf_def)

lemma wf_lower_basic: "runtime_wf R \<Longrightarrow> list_all basic w \<Longrightarrow> str_lower R w = map fold_basic w"
  by (simp add: runtime_wf_def)

lemma wf_digit_limit: "runtime_wf R \<Longrightarrow> int_max_str_digits R = Some l \<Longrightarrow> 640 \<le> l"
  by (simp add: runtime_wf_def)

section \<open>Language detection: the decision rule\<close>

lemma ic_cyrillic_basic:
  assumes "runtime_wf R" "basic c"
  shows "class_ic R cyrillic_pattern c = ru_letter c"
proof -
  have "set cyrillic_pattern = {p. ru_lower p}"
    by (auto simp del: upt_rec_numeral simp add: cyrillic_pattern_def ru_lower_def)
  then have "class_ic R cyrillic_pattern c = (\<exists>p. ru_lower p \<and> ic_match R p c)"
    by (auto simp: class_ic_def list_ex_iff)
  also have "\<dots> = (\<exists>p. ru_lower p \<and> fold_basic p = fold_basic c)"
    using assms by (auto simp: wf_ic_basic basic_def ru_lower_def ru_letter_def)
  also have "\<dots> = ru_letter c"
  proof
    assume "\<exists>p. ru_lower p \<and> fold_basic p = fold_basic c"
    then show "ru_letter c"
      by (auto simp: ru_lower_def ru_letter_def fold_basic_def split: if_splits)
  next
    assume "ru_letter c"
    then have "ru_lower (fold_basic c) \<and> fold_basic (fold_basic c) = fold_basic c"
      by (auto simp: ru_lower_def ru_letter_def fold_basic_def)
    then show "\<exists>p. ru_lower p \<and> fold_basic p = fold_basic c" by blast
  qed
  finally show ?thesis .
qed

lemma ic_latin_basic:
  assumes "runtime_wf R" "basic c"
  shows "class_ic R latin_pattern c = ascii_letter c"
proof -
  have "set latin_pattern = {p. 97 \<le> p \<and> p \<le> 122}"
    by (auto simp del: upt_rec_numeral simp add: latin_pattern_def)
  then have "class_ic R latin_pattern c = (\<exists>p. 97 \<le> p \<and> p \<le> 122 \<and> ic_match R p c)"
    by (auto simp: class_ic_def list_ex_iff)
  also have "\<dots> = (\<exists>p. 97 \<le> p \<and> p \<le> 122 \<and> fold_basic p = fold_basic c)"
    using assms by (auto simp: wf_ic_basic basic_def)
  also have "\<dots> = ascii_letter c"
  proof
    assume "\<exists>p. 97 \<le> p \<and> p \<le> 122 \<and> fold_basic p = fold_basic c"
    then show "ascii_letter c"
      by (auto simp: ascii_letter_def fold_basic_def split: if_splits)
  next
    assume "ascii_letter c"
    then have "97 \<le> fold_basic c \<and> fold_basic c \<le> 122 \<and> fold_basic (fold_basic c) = fold_basic c"
      by (auto simp: ascii_letter_def fold_basic_def)
    then show "\<exists>p. 97 \<le> p \<and> p \<le> 122 \<and> fold_basic p = fold_basic c" by blast
  qed
  finally show ?thesis .
qed

lemma findall_count_basic:
  assumes "runtime_wf R" "list_all basic text"
  shows "findall_count R cyrillic_pattern text = length (filter ru_letter text)"
    and "findall_count R latin_pattern text = length (filter ascii_letter text)"
proof -
  have "filter (class_ic R cyrillic_pattern) text = filter ru_letter text"
    using assms by (intro filter_cong) (auto simp: list_all_iff ic_cyrillic_basic)
  then show "findall_count R cyrillic_pattern text = length (filter ru_letter text)"
    by (simp add: findall_count_def)
  have "filter (class_ic R latin_pattern) text = filter ascii_letter text"
    using assms by (intro filter_cong) (auto simp: list_all_iff ic_latin_basic)
  then show "findall_count R latin_pattern text = length (filter ascii_letter text)"
    by (simp add: findall_count_def)
qed

lemma detect_language_basic:
  assumes "runtime_wf R" "list_all basic text"
  shows "detect_language R text =
           (if length (filter ascii_letter text) > length (filter ru_letter text)
            then English else Russian)"
  using assms by (simp add: detect_language_def findall_count_basic Let_def)

text \<open>
  C2. \<open>detect_language\<close> returns one of the two languages, decided by the two counts in
  this order: more Cyrillic than Latin letters gives Russian; more Latin than Cyrillic
  gives English; a tie with a Cyrillic letter gives Russian; no letter at all gives
  Russian. The four examples: U+041F U+0440 U+0438 U+0432 U+0435 U+0442 \<^verbatim>\<open>!\<close> is Russian,
  \<^verbatim>\<open>Hello!\<close> is English, \<^verbatim>\<open>123\<close> and the empty text are Russian.
\<close>

theorem detect_language_rule:
  assumes "runtime_wf R"
  shows "(detect_language R text = Russian \<or> detect_language R text = English) \<and>
         (findall_count R cyrillic_pattern text > findall_count R latin_pattern text
            \<longrightarrow> detect_language R text = Russian) \<and>
         (findall_count R latin_pattern text > findall_count R cyrillic_pattern text
            \<longrightarrow> detect_language R text = English) \<and>
         (findall_count R latin_pattern text = findall_count R cyrillic_pattern text \<and>
          findall_count R cyrillic_pattern text > 0 \<longrightarrow> detect_language R text = Russian) \<and>
         (findall_count R latin_pattern text = 0 \<and> findall_count R cyrillic_pattern text = 0
            \<longrightarrow> detect_language R text = Russian) \<and>
         detect_language R [RU_P, ru_r, ru_i, ru_v, ru_e, ru_t, 33] = Russian \<and>
         detect_language R (ascii ''Hello!'') = English \<and>
         detect_language R (ascii ''123'') = Russian \<and>
         detect_language R [] = Russian"
proof -
  have ex: "detect_language R [RU_P, ru_r, ru_i, ru_v, ru_e, ru_t, 33] = Russian"
    "detect_language R (ascii ''Hello!'') = English"
    "detect_language R (ascii ''123'') = Russian"
    "detect_language R [] = Russian"
    using assms
    by (simp_all add: detect_language_basic basic_def ru_letter_def ascii_letter_def ascii_def)
  have rule: "(detect_language R text = Russian \<or> detect_language R text = English) \<and>
         (findall_count R cyrillic_pattern text > findall_count R latin_pattern text
            \<longrightarrow> detect_language R text = Russian) \<and>
         (findall_count R latin_pattern text > findall_count R cyrillic_pattern text
            \<longrightarrow> detect_language R text = English) \<and>
         (findall_count R latin_pattern text = findall_count R cyrillic_pattern text \<and>
          findall_count R cyrillic_pattern text > 0 \<longrightarrow> detect_language R text = Russian) \<and>
         (findall_count R latin_pattern text = 0 \<and> findall_count R cyrillic_pattern text = 0
            \<longrightarrow> detect_language R text = Russian)"
    by (simp add: detect_language_def Let_def)
  from rule ex show ?thesis by blast
qed

theorem detect_language_rule_witness:
  "runtime_wf basic_runtime \<and>
   findall_count basic_runtime latin_pattern (ascii ''ok '' @ [ru_d, ru_a]) = 2 \<and>
   findall_count basic_runtime cyrillic_pattern (ascii ''ok '' @ [ru_d, ru_a]) = 2 \<and>
   detect_language basic_runtime (ascii ''ok '' @ [ru_d, ru_a]) = Russian \<and>
   detect_language basic_runtime (ascii ''Hello!'') = English"
proof -
  have t: "list_all basic (ascii ''ok '' @ [ru_d, ru_a])"
    by (simp add: ascii_def basic_def ru_letter_def)
  have c: "findall_count basic_runtime latin_pattern (ascii ''ok '' @ [ru_d, ru_a]) = 2"
    "findall_count basic_runtime cyrillic_pattern (ascii ''ok '' @ [ru_d, ru_a]) = 2"
    using findall_count_basic [OF basic_runtime_wf t]
    by (simp_all add: ascii_def ascii_letter_def ru_letter_def)
  from detect_language_rule [OF basic_runtime_wf, of "ascii ''ok '' @ [ru_d, ru_a]"] c
  show ?thesis using basic_runtime_wf by simp
qed

section \<open>Russian numerals: the tables and the conversion\<close>

lemma py_int_PInt [simp]: "py_int R (PInt n) = Inr n"
  by (simp add: py_int_def)

section \<open>String methods and the scan: basic facts\<close>

lemma endswith_single: "endswith s [c] = (s \<noteq> [] \<and> last s = c)"
  by (cases s rule: rev_cases) (auto simp: endswith_def startswith_def)

lemma ends_with_mark_last: "ends_with_mark s = (s \<noteq> [] \<and> (last s = dot \<or> last s = 33 \<or> last s = 63))"
  by (auto simp: ends_with_mark_def endswith_single)

lemma re_sub_scan_literal_absent:
  "old \<noteq> [] \<Longrightarrow> hd old \<notin> set s \<Longrightarrow> re_sub_scan (match_literal old) r 0 prev s = s"
proof (induction s arbitrary: prev)
  case Nil
  then show ?case by simp
next
  case (Cons c cs)
  from Cons.prems obtain a as where old: "old = a # as" and "a \<noteq> c"
    by (cases old) auto
  then have "match_literal old prev (c # cs) = None"
    by (simp add: match_literal_def startswith_def)
  with Cons show ?case by simp
qed

lemma py_replace_absent: "old \<noteq> [] \<Longrightarrow> hd old \<notin> set s \<Longrightarrow> py_replace old new s = s"
  by (simp add: py_replace_def re_sub_def re_sub_scan_literal_absent)

lemma foldl_fixed: "(\<And>x. x \<in> set xs \<Longrightarrow> f a x = a) \<Longrightarrow> foldl f a xs = a"
  by (induction xs) auto

lemma update_keys_subset: "fst ` set (AList.update k v d) \<subseteq> insert k (fst ` set d)"
  by (induction d) auto

lemma foldl_update_keys:
  "fst ` set (foldl (\<lambda>d kv. AList.update (fst kv) (snd kv) d) d items) \<subseteq> fst ` set d \<union> fst ` set items"
proof (induction items arbitrary: d)
  case Nil
  then show ?case by simp
next
  case (Cons x xs)
  show ?case
    using Cons.IH [of "AList.update (fst x) (snd x) d"] update_keys_subset [of "fst x" "snd x" d]
    by auto
qed

lemma dict_of_items_keys: "fst ` set (dict_of_items items) \<subseteq> fst ` set items"
  using foldl_update_keys [of "[]" items] by (simp add: dict_of_items_def)

lemma sorted_by_length_set [simp]: "set (sorted_by_length d) = set d"
  by (simp add: sorted_by_length_def)

lemma number_map_keys: "list_all (\<lambda>kv. fst kv \<noteq> [] \<and> ascii_digit (hd (fst kv))) number_map_items"
  by (simp add: number_map_items_def ascii_def ascii_digit_def)

lemma english_no_digits:
  assumes "\<not> list_ex ascii_digit text"
  shows "english_number_conversion text = text"
  unfolding english_number_conversion_def
proof (rule foldl_fixed)
  fix x assume "x \<in> set (sorted_by_length (dict_of_items number_map_items))"
  then have "fst x \<in> fst ` set number_map_items"
    using dict_of_items_keys [of number_map_items] by auto
  then have "fst x \<noteq> [] \<and> ascii_digit (hd (fst x))"
    using number_map_keys by (auto simp: list_all_iff)
  with assms show "py_replace (fst x) (snd x) text = text"
    by (intro py_replace_absent) (auto simp: list_ex_iff)
qed

lemma split_ws_Nil [simp]: "split_ws [] = []"
  by (subst split_ws.simps) simp

lemma split_ws_nonspace:
  "\<not> isspace c \<Longrightarrow>
     split_ws (c # cs) =
       (c # takeWhile (\<lambda>x. \<not> isspace x) cs) # split_ws (dropWhile (\<lambda>x. \<not> isspace x) cs)"
  by (subst split_ws.simps) simp

lemma split_ws_space: "isspace c \<Longrightarrow> split_ws (c # cs) = split_ws cs"
  by (subst split_ws.simps, subst (2) split_ws.simps) simp

lemma split_ws_single:
  assumes "s \<noteq> []" "\<not> list_ex isspace s"
  shows "split_ws s = [s]"
proof -
  obtain c cs where s: "s = c # cs" using assms(1) by (cases s) auto
  have tw: "takeWhile (\<lambda>x. \<not> isspace x) cs = cs"
    and dw: "dropWhile (\<lambda>x. \<not> isspace x) cs = []"
    and c: "\<not> isspace c"
    using assms(2) by (auto simp: s list_ex_iff)
  show ?thesis
    by (simp add: s split_ws_nonspace [OF c] tw dw)
qed

section \<open>The pipeline and the synthesis call\<close>

lemma is_only_symbols_marks: "runtime_wf R \<Longrightarrow> is_only_symbols R (ascii ''...!!!!'')"
  by (simp add: is_only_symbols_def ascii_def wf_isalnum_basic basic_def ascii_digit_def
      ascii_letter_def ru_letter_def)

lemma strip_marks: "strip (ascii ''...!!!!'') = ascii ''...!!!!''"
  by (simp add: strip_def rstrip_def ascii_def isspace_def)

lemma preprocess_hi:
  assumes "runtime_wf R"
  shows "preprocess_text_for_tts R T (ascii ''Hi'') = ascii ''Hi.''"
proof -
  have b: "list_all basic (ascii ''Hi'')" by (simp add: ascii_def basic_def)
  have 1: "strip (ascii ''Hi'') = ascii ''Hi''"
    by (simp add: strip_def rstrip_def ascii_def isspace_def)
  have 2: "\<not> is_only_symbols R (ascii ''Hi'')"
    using assms by (simp add: is_only_symbols_def ascii_def wf_isalnum_basic basic_def ascii_letter_def)
  have 3: "remove_long_symbol_sequences (ascii ''Hi'') = ascii ''Hi''"
    by (simp add: remove_long_symbol_sequences_def re_sub_def match_repeat_def ascii_def)
  have 4: "detect_language R (ascii ''Hi'') = English"
    using detect_language_basic [OF assms b] by (simp add: ascii_def ascii_letter_def ru_letter_def)
  have 5: "py_join [sp] (split_ws (ascii ''Hi'')) = ascii ''Hi''"
    by (subst split_ws_single) (simp_all add: ascii_def isspace_def py_join_def)
  have 6: "normalize_text R (yo_dictionary T) (ascii ''Hi'') English = ascii ''Hi''"
    using english_no_digits [of "ascii ''Hi''"]
    by (simp add: normalize_text_def 1 simple_number_conversion_def)
       (simp add: ascii_def ascii_digit_def)
  have 7: "rstrip (ascii ''Hi'') = ascii ''Hi''" "\<not> ends_with_mark (ascii ''Hi'')"
    "ascii ''Hi'' \<noteq> []" "ascii ''Hi'' @ [dot] = ascii ''Hi.''"
    by (simp_all add: rstrip_def ascii_def isspace_def ends_with_mark_last)
  show ?thesis
    by (simp add: preprocess_text_for_tts_def Let_def 1 2 3 4 5 6 7)
qed

text \<open>
  C1. For every input text (and every synthesizer object, whatever its accent model
  returns), the canonical text that \<open>preprocess_text_for_tts\<close> returns is empty or ends
  in one of the characters \<^verbatim>\<open>.\<close>, \<^verbatim>\<open>!\<close>, \<^verbatim>\<open>?\<close>.
\<close>

theorem canonical_text_ends:
  "preprocess_text_for_tts R T text = [] \<or>
   last (preprocess_text_for_tts R T text) = dot \<or>
   last (preprocess_text_for_tts R T text) = 33 \<or>
   last (preprocess_text_for_tts R T text) = 63"
  by (simp add: preprocess_text_for_tts_def Let_def ends_with_mark_last)

theorem canonical_text_ends_witness:
  "preprocess_text_for_tts basic_runtime plain_tts (ascii ''Hi'') \<noteq> [] \<and>
   last (preprocess_text_for_tts basic_runtime plain_tts (ascii ''Hi'')) = dot"
  using canonical_text_ends [of basic_runtime plain_tts "ascii ''Hi''"]
  unfolding preprocess_hi [OF basic_runtime_wf]
  by (simp add: ascii_def)

text \<open>
  C5. When the pipeline returns the empty canonical text, \<open>synthesize_speech\<close> returns
  \<open>None\<close> and has not called the speech model; a text that is only symbols once stripped
  gives the empty canonical text, and so does the text \<^verbatim>\<open>...!!!!\<close>. No step on that
  path can raise.
\<close>

theorem empty_text_no_output:
  assumes "runtime_wf R"
  shows "(preprocess_text_for_tts R T (arg_text a) = [] \<longrightarrow>
            synthesize_speech R T E a = \<lparr>returned = None, engine_calls = []\<rparr>) \<and>
         (is_only_symbols R (strip text) \<longrightarrow> preprocess_text_for_tts R T text = []) \<and>
         preprocess_text_for_tts R T (ascii ''...!!!!'') = []"
proof -
  have 1: "preprocess_text_for_tts R T (arg_text a) = [] \<longrightarrow>
            synthesize_speech R T E a = \<lparr>returned = None, engine_calls = []\<rparr>"
    by (simp add: synthesize_speech_def)
  have 2: "is_only_symbols R (strip text) \<longrightarrow> preprocess_text_for_tts R T text = []"
    by (simp add: preprocess_text_for_tts_def Let_def)
  have 3: "preprocess_text_for_tts R T (ascii ''...!!!!'') = []"
    using is_only_symbols_marks [OF assms]
    by (simp add: preprocess_text_for_tts_def strip_marks Let_def)
  from 1 2 3 show ?thesis by blast
qed

theorem empty_text_no_output_witness:
  "runtime_wf basic_runtime \<and>
   preprocess_text_for_tts basic_runtime plain_tts (ascii ''...!!!!'') = [] \<and>
   synthesize_speech basic_runtime plain_tts \<lparr>time_ms = 0, mkdir_ok = True\<rparr>
     (default_args (ascii ''...!!!!'') (ascii ''ref.wav'')) = \<lparr>returned = None, engine_calls = []\<rparr>"
  using empty_text_no_output [OF basic_runtime_wf, of plain_tts
      "default_args (ascii ''...!!!!'') (ascii ''ref.wav'')" "\<lparr>time_ms = 0, mkdir_ok = True\<rparr>"]
    basic_runtime_wf
  by (simp add: default_args_def)

text \<open>
  C9. When the canonical text is not empty and the call reaches the speech model, the
  speed and the number of steps handed to it are the caller's values where given, and
  otherwise functions of the length \<open>L\<close> of the canonical text without spaces: speed 0.1
  for \<open>L \<le> 3\<close>, 0.3 for \<open>L \<le> 8\<close>, 0.6 for \<open>L \<le> 18\<close>, 0.8 for \<open>L \<le> 35\<close>, 0.9 for
  \<open>L \<le> 45\<close>, else 1.0; 18 steps for \<open>L > 120\<close>, else 26.
\<close>

theorem prosody_heuristic:
  assumes "preprocess_text_for_tts R T (arg_text a) \<noteq> []"
    and "russian_tts T = Some model" and "mkdir_ok E"
  shows "\<exists>p. engine_calls (synthesize_speech R T E a) = [p] \<and>
           gen_text p = preprocess_text_for_tts R T (arg_text a) \<and>
           speed p =
             (case arg_speed a of
                Some s \<Rightarrow> s
              | None \<Rightarrow>
                  if length (filter (\<lambda>c. c \<noteq> sp) (gen_text p)) \<le> 3 then 0.1
                  else if length (filter (\<lambda>c. c \<noteq> sp) (gen_text p)) \<le> 8 then 0.3
                  else if length (filter (\<lambda>c. c \<noteq> sp) (gen_text p)) \<le> 18 then 0.6
                  else if length (filter (\<lambda>c. c \<noteq> sp) (gen_text p)) \<le> 35 then 0.8
                  else if length (filter (\<lambda>c. c \<noteq> sp) (gen_text p)) \<le> 45 then 0.9
                  else 1.0) \<and>
           nfe_step p =
             (case arg_nfe_step a of
                Some n \<Rightarrow> n
              | None \<Rightarrow> if length (filter (\<lambda>c. c \<noteq> sp) (gen_text p)) > 120 then 18 else 26)"
  using assms
  by (simp add: synthesize_speech_def Let_def split: option.split)

theorem prosody_heuristic_witness:
  "preprocess_text_for_tts basic_runtime plain_tts (ascii ''Hi'') \<noteq> [] \<and>
   russian_tts plain_tts = Some (\<lambda>p. True) \<and>
   (\<exists>p. engine_calls (synthesize_speech basic_runtime plain_tts \<lparr>time_ms = 0, mkdir_ok = True\<rparr>
            (default_args (ascii ''Hi'') (ascii ''ref.wav''))) = [p] \<and>
        speed p = 0.1 \<and> nfe_step p = 26)"
proof -
  let ?a = "default_args (ascii ''Hi'') (ascii ''ref.wav'')"
  have t: "arg_text ?a = ascii ''Hi''" "arg_speed ?a = None" "arg_nfe_step ?a = None"
    by (simp_all add: default_args_def)
  have h: "preprocess_text_for_tts basic_runtime plain_tts (ascii ''Hi'') = ascii ''Hi.''"
    by (rule preprocess_hi [OF basic_runtime_wf])
  have n: "preprocess_text_for_tts basic_runtime plain_tts (arg_text ?a) \<noteq> []"
    unfolding t h by (simp add: ascii_def)
  have m: "russian_tts plain_tts = Some (\<lambda>p. True)" by (simp add: plain_tts_def)
  have k: "mkdir_ok \<lparr>time_ms = 0, mkdir_ok = True\<rparr>" by simp
  from prosody_heuristic [OF n m k] obtain p where
    p: "engine_calls (synthesize_speech basic_runtime plain_tts \<lparr>time_ms = 0, mkdir_ok = True\<rparr> ?a) = [p]"
      "gen_text p = preprocess_text_for_tts basic_runtime plain_tts (arg_text ?a)"
      "speed p =
             (case arg_speed ?a of
                Some s \<Rightarrow> s
              | None \<Rightarrow>
                  if length (filter (\<lambda>c. c \<noteq> sp) (gen_text p)) \<le> 3 then 0.1
                  else if length (filter (\<lambda>c. c \<noteq> sp) (gen_text p)) \<le> 8 then 0.3
                  else if length (filter (\<lambda>c. c \<noteq> sp) (gen_text p)) \<le> 18 then 0.6
                  else if length (filter (\<lambda>c. c \<noteq> sp) (gen_text p)) \<le> 35 then 0.8
                  else if length (filter (\<lambda>c. c \<noteq> sp) (gen_text p)) \<le> 45 then 0.9
                  else 1.0)"
      "nfe_step p =
             (case arg_nfe_step ?a of
                Some n \<Rightarrow> n
              | None \<Rightarrow> if length (filter (\<lambda>c. c \<noteq> sp) (gen_text p)) > 120 then 18 else 26)"
    by blast
  have g: "gen_text p = ascii ''Hi.''" using p(2) by (simp add: t h)
  have "speed p = 0.1 \<and> nfe_step p = 26"
    using p(3,4) unfolding t g by (simp add: ascii_def)
  with p(1) n m show ?thesis unfolding t by blast
qed

end
